theory Spec2Isabelle
  imports Main
begin

section \<open>Data model (types.ts)\<close>

text \<open>
  \<open>MasteryLevel\<close> is a numeric TypeScript enum: at run time a level is a number, and
  \<open>handleSubmit\<close> does arithmetic on it (\<open>currentLevel + 1\<close>, \<open>Math.min\<close>), so a level
  is a natural number here and the enum members are the constants below. The values the
  type admits are \<open>0 .. 4\<close>; \<open>valid_level\<close> says so.
\<close>

type_synonym MasteryLevel = nat

definition LOCKED :: MasteryLevel where "LOCKED = 0"
definition RECOGNITION :: MasteryLevel where "RECOGNITION = 1"
definition UNDERSTANDING :: MasteryLevel where "UNDERSTANDING = 2"
definition APPLICATION :: MasteryLevel where "APPLICATION = 3"
definition REASONING :: MasteryLevel where "REASONING = 4"

named_theorems level_defs

declare LOCKED_def [level_defs]
declare RECOGNITION_def [level_defs]
declare UNDERSTANDING_def [level_defs]
declare APPLICATION_def [level_defs]
declare REASONING_def [level_defs]

definition valid_level :: "MasteryLevel \<Rightarrow> bool" where
  "valid_level l = (l \<le> REASONING)"

record MistakeRecord =
  m_id :: string
  timestamp :: nat
  question :: string
  m_userAnswer :: string
  correction :: string
  misunderstandingType :: string

record Concept =
  c_id :: string
  title :: string
  description :: string
  dependencies :: "string list"
  masteryLevel :: MasteryLevel
  mistakes :: "MistakeRecord list"

datatype QuestionType = MULTIPLE_CHOICE | SHORT_ANSWER | SCENARIO | OPEN_REASONING

record Question =
  q_id :: string
  conceptId :: string
  q_text :: string
  q_type :: QuestionType
  options :: "string list option"
  correctAnswerContext :: "string option"

record AssessmentResult =
  isCorrect :: bool
  explanation :: string
  conceptUpdate :: "MasteryLevel option"

section \<open>The Reasoning Provider as seen by the services\<close>

text \<open>
  The provider is external. Each service function awaits one provider call inside a
  \<open>try\<close> block; what comes back is an input of the model. \<open>CallFails\<close>: the awaited call
  throws. \<open>NoText\<close>: the response carries no text (\<open>undefined\<close> or the empty string), so
  the service throws \<open>"Empty response"\<close> / \<open>"Evaluation failed"\<close> itself. \<open>BadJson\<close>:
  \<open>JSON.parse\<close> throws. \<open>Json d\<close>: the text parses to \<open>d\<close>. The first three all end in
  the \<open>catch\<close> block.
\<close>

datatype 'a reply = CallFails | NoText | BadJson | Json 'a

text \<open>
  The fields the question prompt asks the provider for; \<open>generateQuestion\<close> spreads them
  after \<open>id\<close> and \<open>conceptId\<close>. The parsed object is taken to have this shape.
\<close>

record QuestionData =
  d_text :: string
  d_type :: QuestionType
  d_options :: "string list option"
  d_correctAnswerContext :: "string option"

text \<open>
  Summary prose may hold any Unicode code point (the emoji filter is defined on code
  point ranges), so it is a list of code points rather than of 8-bit characters.
\<close>

type_synonym utext = "nat list"

definition utext :: "string \<Rightarrow> utext" where
  "utext s = map of_char s"

datatype text_reply = TextFails | TextNone | TextContent utext

datatype MistakeData = MistakeData string string string string

datatype ConceptData =
  ConceptData string string MasteryLevel "string list" "MistakeData list"

text \<open>What a service sends to the provider; the log of these is ghost state.\<close>

datatype ProviderCall =
  QuestionCall MasteryLevel string string "string list"
| EvaluateCall MasteryLevel string "string option" string
| SummaryCall "ConceptData list"

datatype Provider = OpenAI | Gemini

section \<open>services/openaiService.ts and the Gemini service\<close>

definition relatedConcepts :: "Concept \<Rightarrow> Concept list \<Rightarrow> string list" where
  "relatedConcepts concept allConcepts =
     map title (filter (\<lambda>c. c_id c \<in> set (dependencies concept)
                              \<or> c_id concept \<in> set (dependencies c)) allConcepts)"

definition questionRequest :: "Concept \<Rightarrow> Concept list \<Rightarrow> ProviderCall" where
  "questionRequest concept allConcepts =
     (let currentLevel = (if masteryLevel concept = LOCKED then 1 else masteryLevel concept)
      in QuestionCall currentLevel (title concept) (description concept)
           (relatedConcepts concept allConcepts))"

definition fallbackQuestion :: "Concept \<Rightarrow> Question" where
  "fallbackQuestion concept =
     \<lparr>q_id = ''error'', conceptId = c_id concept,
      q_text = ''Explain the concept of '' @ title concept,
      q_type = SHORT_ANSWER, options = None,
      correctAnswerContext = Some (description concept)\<rparr>"

definition openai_generateQuestion ::
  "Concept \<Rightarrow> Concept list \<Rightarrow> QuestionData reply \<Rightarrow> string \<Rightarrow> Question" where
  "openai_generateQuestion concept allConcepts r uuid =
     (case r of
        Json d \<Rightarrow> \<lparr>q_id = uuid, conceptId = c_id concept, q_text = d_text d,
                   q_type = d_type d, options = d_options d,
                   correctAnswerContext = d_correctAnswerContext d\<rparr>
      | NoText \<Rightarrow> fallbackQuestion concept
      | BadJson \<Rightarrow> fallbackQuestion concept
      | CallFails \<Rightarrow> fallbackQuestion concept)"

definition gemini_generateQuestion ::
  "Concept \<Rightarrow> Concept list \<Rightarrow> QuestionData reply \<Rightarrow> string \<Rightarrow> Question" where
  "gemini_generateQuestion concept allConcepts r uuid =
     (case r of
        Json d \<Rightarrow> \<lparr>q_id = uuid, conceptId = c_id concept, q_text = d_text d,
                   q_type = d_type d, options = d_options d,
                   correctAnswerContext = d_correctAnswerContext d\<rparr>
      | NoText \<Rightarrow> fallbackQuestion concept
      | BadJson \<Rightarrow> fallbackQuestion concept
      | CallFails \<Rightarrow> fallbackQuestion concept)"

definition evaluationRequest :: "Question \<Rightarrow> string \<Rightarrow> Concept \<Rightarrow> ProviderCall" where
  "evaluationRequest q answer concept =
     EvaluateCall (if masteryLevel concept = 0 then 1 else masteryLevel concept)
       (q_text q) (correctAnswerContext q) answer"

definition evaluationFallback :: AssessmentResult where
  "evaluationFallback =
     \<lparr>isCorrect = False,
      explanation = ''An error occurred during evaluation. Please try again.'',
      conceptUpdate = None\<rparr>"

definition openai_evaluateAnswer ::
  "Question \<Rightarrow> string \<Rightarrow> Concept \<Rightarrow> AssessmentResult reply \<Rightarrow> AssessmentResult" where
  "openai_evaluateAnswer q answer concept r =
     (case r of
        Json res \<Rightarrow> res
      | NoText \<Rightarrow> evaluationFallback
      | BadJson \<Rightarrow> evaluationFallback
      | CallFails \<Rightarrow> evaluationFallback)"

definition gemini_evaluateAnswer ::
  "Question \<Rightarrow> string \<Rightarrow> Concept \<Rightarrow> AssessmentResult reply \<Rightarrow> AssessmentResult" where
  "gemini_evaluateAnswer q answer concept r =
     (case r of
        Json res \<Rightarrow> res
      | NoText \<Rightarrow> evaluationFallback
      | BadJson \<Rightarrow> evaluationFallback
      | CallFails \<Rightarrow> evaluationFallback)"

text \<open>
  The ranges of the regular expression that \<open>generateUnifiedSummary\<close> deletes from the
  provider's prose (flags \<open>gu\<close>: every match, by code point).
\<close>

definition is_emoji :: "nat \<Rightarrow> bool" where
  "is_emoji cp =
     ((0x1F600 \<le> cp \<and> cp \<le> 0x1F64F) \<or> (0x1F300 \<le> cp \<and> cp \<le> 0x1F5FF)
      \<or> (0x1F680 \<le> cp \<and> cp \<le> 0x1F6FF) \<or> (0x1F1E0 \<le> cp \<and> cp \<le> 0x1F1FF)
      \<or> (0x2600 \<le> cp \<and> cp \<le> 0x26FF) \<or> (0x2700 \<le> cp \<and> cp \<le> 0x27BF))"

definition conceptData :: "Concept list \<Rightarrow> ConceptData list" where
  "conceptData cs =
     map (\<lambda>c. ConceptData (title c) (description c) (masteryLevel c) (dependencies c)
                 (map (\<lambda>m. MistakeData (question m) (m_userAnswer m) (correction m)
                                (misunderstandingType m)) (mistakes c))) cs"

text \<open>
  The result is the returned string together with the provider calls made.
  \<open>content || default\<close>: a missing or empty content gives the default document.
\<close>

definition openai_generateUnifiedSummary ::
  "Concept list \<Rightarrow> text_reply \<Rightarrow> utext \<times> ProviderCall list" where
  "openai_generateUnifiedSummary cs r =
     (if length cs = 0 then (utext ''No concepts to summarize.'', [])
      else
        (case r of
           TextFails \<Rightarrow>
             (utext (''# Error'' @ [CHR 0x0A, CHR 0x0A] @ ''Failed to generate summary.''),
              [SummaryCall (conceptData cs)])
         | TextNone \<Rightarrow>
             (filter (\<lambda>cp. \<not> is_emoji cp)
                (utext (''# Summary'' @ [CHR 0x0A, CHR 0x0A] @ ''Could not generate summary.'')),
              [SummaryCall (conceptData cs)])
         | TextContent content \<Rightarrow>
             (filter (\<lambda>cp. \<not> is_emoji cp)
                (if content = []
                 then utext (''# Summary'' @ [CHR 0x0A, CHR 0x0A] @ ''Could not generate summary.'')
                 else content),
              [SummaryCall (conceptData cs)])))"

definition gemini_generateUnifiedSummary ::
  "Concept list \<Rightarrow> text_reply \<Rightarrow> utext \<times> ProviderCall list" where
  "gemini_generateUnifiedSummary cs r =
     (if length cs = 0 then (utext ''No concepts to summarize.'', [])
      else
        (case r of
           TextFails \<Rightarrow>
             (utext (''# Error'' @ [CHR 0x0A, CHR 0x0A] @ ''Failed to generate summary.''),
              [SummaryCall (conceptData cs)])
         | TextNone \<Rightarrow>
             (filter (\<lambda>cp. \<not> is_emoji cp)
                (utext (''# Summary'' @ [CHR 0x0A, CHR 0x0A] @ ''Could not generate summary.'')),
              [SummaryCall (conceptData cs)])
         | TextContent content \<Rightarrow>
             (filter (\<lambda>cp. \<not> is_emoji cp)
                (if content = []
                 then utext (''# Summary'' @ [CHR 0x0A, CHR 0x0A] @ ''Could not generate summary.'')
                 else content),
              [SummaryCall (conceptData cs)])))"

section \<open>services/aiService.ts: dispatch on the selected provider\<close>

definition generateQuestion ::
  "Provider \<Rightarrow> Concept \<Rightarrow> Concept list \<Rightarrow> QuestionData reply \<Rightarrow> string \<Rightarrow> Question" where
  "generateQuestion selectedProvider concept allConcepts r uuid =
     (if selectedProvider = OpenAI then openai_generateQuestion concept allConcepts r uuid
      else gemini_generateQuestion concept allConcepts r uuid)"

definition evaluateAnswer ::
  "Provider \<Rightarrow> Question \<Rightarrow> string \<Rightarrow> Concept \<Rightarrow> AssessmentResult reply
     \<Rightarrow> AssessmentResult" where
  "evaluateAnswer selectedProvider q answer concept r =
     (if selectedProvider = OpenAI then openai_evaluateAnswer q answer concept r
      else gemini_evaluateAnswer q answer concept r)"

definition generateUnifiedSummary ::
  "Provider \<Rightarrow> Concept list \<Rightarrow> text_reply \<Rightarrow> utext \<times> ProviderCall list" where
  "generateUnifiedSummary selectedProvider cs r =
     (if selectedProvider = OpenAI then openai_generateUnifiedSummary cs r
      else gemini_generateUnifiedSummary cs r)"

section \<open>App.tsx and components/LearningGame.tsx\<close>

text \<open>
  The React state of \<open>LearningGame\<close> is \<open>GameState\<close>. \<open>World\<close> adds the state of \<open>App\<close> that
  the component's callbacks write (\<open>concepts\<close>, \<open>selectedConcept\<close>), the pending
  \<open>setTimeout(onClose, 2000)\<close> and the log of provider calls. User actions are
  serialised, so an event handler is a function from world to world.
\<close>

record GameState =
  currentQuestion :: "Question option"
  loading :: bool
  userAnswer :: string
  assessment :: "AssessmentResult option"
  submitting :: bool
  questionHistory :: "string list"
  needsRetry :: bool

record World =
  concepts :: "Concept list"
  selectedConcept :: "Concept option"
  game :: GameState
  closeTimer :: bool
  providerLog :: "ProviderCall list"

definition updateConcept :: "Concept \<Rightarrow> World \<Rightarrow> World" where
  "updateConcept updated w =
     (let newConcepts = map (\<lambda>c. if c_id c = c_id updated then updated else c) (concepts w)
      in w\<lparr>concepts := newConcepts,
           selectedConcept :=
             (case selectedConcept w of
                None \<Rightarrow> None
              | Some s \<Rightarrow> if c_id s = c_id updated then Some updated else Some s)\<rparr>)"

definition onClose :: "World \<Rightarrow> World" where
  "onClose w = w\<lparr>selectedConcept := None\<rparr>"

text \<open>
  \<open>String.prototype.trim\<close> on 8-bit characters: the ECMAScript white space and line
  terminators below U+0100 are TAB, LF, VT, FF, CR, SPACE and NBSP.
\<close>

definition is_whitespace :: "char \<Rightarrow> bool" where
  "is_whitespace c = ((of_char c :: nat) \<in> set [0x09, 0x0A, 0x0B, 0x0C, 0x0D, 0x20, 0xA0])"

definition trim :: "string \<Rightarrow> string" where
  "trim s = rev (dropWhile is_whitespace (rev (dropWhile is_whitespace s)))"

definition newMistake :: "string \<Rightarrow> nat \<Rightarrow> Question \<Rightarrow> string \<Rightarrow> AssessmentResult \<Rightarrow> MistakeRecord" where
  "newMistake uuid now q answer result =
     \<lparr>m_id = uuid, timestamp = now, question = q_text q, m_userAnswer = answer,
      correction = explanation result, misunderstandingType = ''Conceptual''\<rparr>"

text \<open>
  \<open>handleSubmit\<close>, with the component's prop \<open>concept\<close>, the provider's reply to the one
  evaluation request, and the values \<open>crypto.randomUUID()\<close> and \<open>Date.now()\<close> would give.
\<close>

definition handleSubmit ::
  "Provider \<Rightarrow> AssessmentResult reply \<Rightarrow> string \<Rightarrow> nat \<Rightarrow> Concept \<Rightarrow> World \<Rightarrow> World" where
  "handleSubmit sel r uuid now concept w =
     (case currentQuestion (game w) of
        None \<Rightarrow> w
      | Some q \<Rightarrow>
          if trim (userAnswer (game w)) = [] then w
          else
            let answer = userAnswer (game w);
                result = evaluateAnswer sel q answer concept r;
                w1 = w\<lparr>providerLog := providerLog w @ [evaluationRequest q answer concept],
                       game := (game w)\<lparr>assessment := Some result, submitting := False,
                                 questionHistory := questionHistory (game w) @ [q_text q]\<rparr>\<rparr>
            in
              if isCorrect result then
                let w2 = w1\<lparr>game := (game w1)\<lparr>needsRetry := False\<rparr>\<rparr>;
                    currentLevel = (if masteryLevel concept = LOCKED then 1
                                    else masteryLevel concept);
                    nextLevel = min (currentLevel + 1) REASONING
                in
                  if currentLevel < REASONING
                  then updateConcept (concept\<lparr>masteryLevel := nextLevel\<rparr>) w2
                  else (updateConcept (concept\<lparr>masteryLevel := REASONING\<rparr>) w2)
                         \<lparr>closeTimer := True\<rparr>
              else
                let w2 = w1\<lparr>game := (game w1)\<lparr>needsRetry := True\<rparr>\<rparr>
                in updateConcept
                     (concept\<lparr>mistakes := mistakes concept @ [newMistake uuid now q answer result]\<rparr>)
                     w2)"

text \<open>
  The \<open>while\<close> loop of \<open>handleNext\<close>. Provider replies and UUIDs are indexed by the
  number of the \<open>generateQuestion\<close> call (the first call, before the loop, is number 0).
  The result is the final \<open>newQuestion\<close> and the final value of \<open>attempts\<close>.
\<close>

definition maxAttempts :: nat where
  "maxAttempts = 5"

function uniqueLoop ::
  "Provider \<Rightarrow> Concept \<Rightarrow> Concept list \<Rightarrow> string list \<Rightarrow> (nat \<Rightarrow> QuestionData reply)
     \<Rightarrow> (nat \<Rightarrow> string) \<Rightarrow> Question \<Rightarrow> nat \<Rightarrow> Question \<times> nat" where
  "uniqueLoop sel concept allConcepts history replies uuids newQuestion attempts =
     (if q_text newQuestion \<in> set history \<and> attempts < maxAttempts
      then uniqueLoop sel concept allConcepts history replies uuids
             (generateQuestion sel concept allConcepts (replies (attempts + 1))
                (uuids (attempts + 1)))
             (attempts + 1)
      else (newQuestion, attempts))"
  by pat_completeness auto
termination
  by (relation "measure (\<lambda>(sel, concept, allConcepts, history, replies, uuids, newQuestion, attempts).
                           maxAttempts - attempts)") auto

declare uniqueLoop.simps [simp del]

definition handleNext ::
  "Provider \<Rightarrow> (nat \<Rightarrow> QuestionData reply) \<Rightarrow> (nat \<Rightarrow> string) \<Rightarrow> Concept \<Rightarrow> World \<Rightarrow> World" where
  "handleNext sel replies uuids concept w =
     (let first = generateQuestion sel concept (concepts w) (replies 0) (uuids 0);
          (newQuestion, attempts) =
             uniqueLoop sel concept (concepts w) (questionHistory (game w)) replies uuids first 0
      in w\<lparr>providerLog :=
              providerLog w @ replicate (attempts + 1) (questionRequest concept (concepts w)),
           game := (game w)\<lparr>assessment := None, userAnswer := [],
                     currentQuestion := Some newQuestion, loading := False\<rparr>\<rparr>)"

text \<open>The effect that loads the first question when the component mounts.\<close>

definition loadQ :: "Provider \<Rightarrow> QuestionData reply \<Rightarrow> string \<Rightarrow> Concept \<Rightarrow> World \<Rightarrow> World" where
  "loadQ sel r uuid concept w =
     w\<lparr>providerLog := providerLog w @ [questionRequest concept (concepts w)],
       game := (game w)\<lparr>currentQuestion :=
                          Some (generateQuestion sel concept (concepts w) r uuid),
                 loading := False\<rparr>\<rparr>"

section \<open>Sessions: sequences of user actions\<close>

text \<open>
  \<open>App\<close> renders \<open>LearningGame\<close> with \<open>concept = selectedConcept\<close>,
  \<open>allConcepts = concepts\<close>, \<open>onUpdateConcept = updateConcept\<close> and
  \<open>onClose = () => setSelectedConcept(null)\<close>, and only while a concept is selected.
  An action is one serialised user or timer event with the external values it consumes.
  The guards the buttons put on the user (controls disabled while an assessment is shown)
  are left out, so a session here may do more than the interface allows.
\<close>

datatype Action =
  TypeAnswer string
| Submit "AssessmentResult reply" string nat
| Continue "nat \<Rightarrow> QuestionData reply" "nat \<Rightarrow> string"
| TimerFires

definition step :: "Provider \<Rightarrow> Action \<Rightarrow> World \<Rightarrow> World" where
  "step sel a w =
     (case selectedConcept w of
        None \<Rightarrow> (case a of TimerFires \<Rightarrow> w\<lparr>closeTimer := False\<rparr> | _ \<Rightarrow> w)
      | Some concept \<Rightarrow>
          (case a of
             TypeAnswer s \<Rightarrow> w\<lparr>game := (game w)\<lparr>userAnswer := s\<rparr>\<rparr>
           | Submit r uuid now \<Rightarrow> handleSubmit sel r uuid now concept w
           | Continue replies uuids \<Rightarrow> handleNext sel replies uuids concept w
           | TimerFires \<Rightarrow> if closeTimer w then (onClose w)\<lparr>closeTimer := False\<rparr> else w))"

fun run :: "Provider \<Rightarrow> Action list \<Rightarrow> World \<Rightarrow> World" where
  "run sel [] w = w"
| "run sel (a # as) w = run sel as (step sel a w)"

text \<open>
  The states a session is in: every level is a value of the enum, and the selected
  concept has the level of the collection's entries of its identifier (\<open>App\<close> writes
  both through \<open>updateConcept\<close>; a session starts with every concept \<open>LOCKED\<close>).
\<close>

definition wf_world :: "World \<Rightarrow> bool" where
  "wf_world w =
     (list_all (\<lambda>c. valid_level (masteryLevel c)) (concepts w) \<and>
      (case selectedConcept w of
         None \<Rightarrow> True
       | Some s \<Rightarrow> valid_level (masteryLevel s) \<and>
                   list_all (\<lambda>c. c_id c \<noteq> c_id s \<or> masteryLevel c = masteryLevel s)
                     (concepts w)))"

text \<open>
  No level is lower in \<open>w'\<close> than in \<open>w\<close>: position by position in the collection
  (which keeps its identifiers), and for the selected concept while one is selected.
\<close>

definition levels_le :: "World \<Rightarrow> World \<Rightarrow> bool" where
  "levels_le w w' =
     (list_all2 (\<lambda>c c'. c_id c' = c_id c \<and> masteryLevel c \<le> masteryLevel c')
        (concepts w) (concepts w') \<and>
      (case selectedConcept w' of
         None \<Rightarrow> True
       | Some s' \<Rightarrow> (case selectedConcept w of
                      None \<Rightarrow> False
                    | Some s \<Rightarrow> c_id s' = c_id s \<and> masteryLevel s \<le> masteryLevel s')))"

section \<open>Concrete sessions\<close>

definition ex_sets :: Concept where
  "ex_sets = \<lparr>c_id = ''sets'', title = ''Sets'', description = ''Unordered collections'',
              dependencies = [], masteryLevel = LOCKED, mistakes = []\<rparr>"

definition ex_maps :: Concept where
  "ex_maps = \<lparr>c_id = ''maps'', title = ''Maps'', description = ''Key-value tables'',
              dependencies = [''sets''], masteryLevel = REASONING, mistakes = []\<rparr>"

definition ex_trees :: Concept where
  "ex_trees = \<lparr>c_id = ''trees'', title = ''Trees'', description = ''Branching structures'',
               dependencies = [''sets''], masteryLevel = UNDERSTANDING, mistakes = []\<rparr>"

definition ex_question :: Question where
  "ex_question = \<lparr>q_id = ''q-1'', conceptId = ''sets'', q_text = ''What is a set?'',
                  q_type = MULTIPLE_CHOICE, options = Some [''A bag'', ''A collection''],
                  correctAnswerContext = Some ''A collection''\<rparr>"

definition ex_game :: GameState where
  "ex_game = \<lparr>currentQuestion = Some ex_question, loading = False,
              userAnswer = ''A collection'', assessment = None, submitting = False,
              questionHistory = [''What is a set?''], needsRetry = False\<rparr>"

definition ex_world :: "Concept \<Rightarrow> World" where
  "ex_world selected =
     \<lparr>concepts = [ex_sets, ex_maps, ex_trees], selectedConcept = Some selected,
      game = ex_game, closeTimer = False, providerLog = []\<rparr>"

definition ex_right :: AssessmentResult where
  "ex_right = \<lparr>isCorrect = True, explanation = ''Yes.'', conceptUpdate = None\<rparr>"

definition ex_wrong :: AssessmentResult where
  "ex_wrong = \<lparr>isCorrect = False, explanation = ''A set has no order.'',
               conceptUpdate = None\<rparr>"

definition ex_repeat :: QuestionData where
  "ex_repeat = \<lparr>d_text = ''What is a set?'', d_type = MULTIPLE_CHOICE,
                d_options = Some [''A bag'', ''A collection''],
                d_correctAnswerContext = Some ''A collection''\<rparr>"

definition ex_fresh :: QuestionData where
  "ex_fresh = \<lparr>d_text = ''Is the empty set a set?'', d_type = SHORT_ANSWER,
               d_options = None, d_correctAnswerContext = Some ''Yes''\<rparr>"

named_theorems ex_defs

declare ex_sets_def [ex_defs]
declare ex_maps_def [ex_defs]
declare ex_trees_def [ex_defs]
declare ex_question_def [ex_defs]
declare ex_game_def [ex_defs]
declare ex_world_def [ex_defs]
declare ex_right_def [ex_defs]
declare ex_wrong_def [ex_defs]
declare ex_repeat_def [ex_defs]
declare ex_fresh_def [ex_defs]

definition ex_blank :: World where
  "ex_blank = (ex_world ex_sets)\<lparr>game := ex_game\<lparr>userAnswer := [CHR '' '', CHR 0x09, CHR 0xA0]\<rparr>\<rparr>"

definition ex_session :: "Action list" where
  "ex_session =
     [Submit (Json ex_right) ''m-1'' 10,
      Continue (\<lambda>k. if k < 2 then Json ex_repeat else Json ex_fresh) (\<lambda>k. ''q-2''),
      TypeAnswer ''No'']"

declare ex_blank_def [ex_defs]
declare ex_session_def [ex_defs]

section \<open>Auxiliary facts\<close>

lemma updateConcept_fields [simp]:
  "concepts (updateConcept u w) = map (\<lambda>c. if c_id c = c_id u then u else c) (concepts w)"
  "selectedConcept (updateConcept u w) =
     (case selectedConcept w of None \<Rightarrow> None
      | Some s \<Rightarrow> if c_id s = c_id u then Some u else Some s)"
  "game (updateConcept u w) = game w"
  "closeTimer (updateConcept u w) = closeTimer w"
  "providerLog (updateConcept u w) = providerLog w"
  by (simp_all add: updateConcept_def Let_def)

lemma evaluateAnswer_failure:
  "r \<in> {CallFails, NoText, BadJson} \<Longrightarrow> evaluateAnswer sel q a c r = evaluationFallback"
  by (auto simp: evaluateAnswer_def openai_evaluateAnswer_def gemini_evaluateAnswer_def)

lemma evaluateAnswer_Json [simp]: "evaluateAnswer sel q a c (Json res) = res"
  by (simp add: evaluateAnswer_def openai_evaluateAnswer_def gemini_evaluateAnswer_def)

lemma generateQuestion_Json [simp]:
  "generateQuestion sel c all (Json d) uuid =
     \<lparr>q_id = uuid, conceptId = c_id c, q_text = d_text d, q_type = d_type d,
      options = d_options d, correctAnswerContext = d_correctAnswerContext d\<rparr>"
  by (simp add: generateQuestion_def openai_generateQuestion_def gemini_generateQuestion_def)

lemma trim_empty_iff: "trim s = [] \<longleftrightarrow> list_all is_whitespace s"
proof
  assume "trim s = []"
  then have rest: "\<forall>c \<in> set (dropWhile is_whitespace s). is_whitespace c"
    by (simp add: trim_def dropWhile_eq_Nil_conv)
  have "dropWhile is_whitespace s = []"
  proof (rule ccontr)
    assume ne: "dropWhile is_whitespace s \<noteq> []"
    then have "\<not> is_whitespace (hd (dropWhile is_whitespace s))"
      by (rule hd_dropWhile)
    moreover from ne have "hd (dropWhile is_whitespace s) \<in> set (dropWhile is_whitespace s)"
      by simp
    ultimately show False using rest by blast
  qed
  then show "list_all is_whitespace s"
    by (simp add: dropWhile_eq_Nil_conv list_all_iff)
next
  assume "list_all is_whitespace s"
  then have none: "dropWhile is_whitespace s = []"
    by (simp add: dropWhile_eq_Nil_conv list_all_iff)
  show "trim s = []"
    by (simp only: trim_def none dropWhile.simps rev.simps)
qed

subsection \<open>The retry loop\<close>

lemma uniqueLoop_spec:
  assumes "uniqueLoop sel c all hist replies uuids newQuestion a = (q, n)"
    and "newQuestion = generateQuestion sel c all (replies a) (uuids a)"
  shows "a \<le> n
       \<and> (a \<le> maxAttempts \<longrightarrow> n \<le> maxAttempts)
       \<and> q = generateQuestion sel c all (replies n) (uuids n)
       \<and> (\<forall>k. a \<le> k \<and> k < n \<longrightarrow>
             q_text (generateQuestion sel c all (replies k) (uuids k)) \<in> set hist)
       \<and> (n < maxAttempts \<longrightarrow> q_text q \<notin> set hist)"
  using assms
proof (induction sel c all hist replies uuids newQuestion a rule: uniqueLoop.induct)
  case (1 sel c all hist replies uuids newQuestion a)
  let ?again = "q_text newQuestion \<in> set hist \<and> a < maxAttempts"
  {
    assume again: ?again
    have "uniqueLoop sel c all hist replies uuids newQuestion a =
          uniqueLoop sel c all hist replies uuids
             (generateQuestion sel c all (replies (a + 1)) (uuids (a + 1))) (a + 1)"
      using again by (subst uniqueLoop.simps) simp
    with "1.prems"(1) have run: "uniqueLoop sel c all hist replies uuids
             (generateQuestion sel c all (replies (a + 1)) (uuids (a + 1))) (a + 1) = (q, n)"
      by simp
    from "1.IH" [OF again run refl]
    have ih: "a + 1 \<le> n" "a + 1 \<le> maxAttempts \<longrightarrow> n \<le> maxAttempts"
      "q = generateQuestion sel c all (replies n) (uuids n)"
      "\<forall>k. a + 1 \<le> k \<and> k < n \<longrightarrow>
             q_text (generateQuestion sel c all (replies k) (uuids k)) \<in> set hist"
      "n < maxAttempts \<longrightarrow> q_text q \<notin> set hist"
      by blast+
    have here: "q_text (generateQuestion sel c all (replies a) (uuids a)) \<in> set hist"
      using again "1.prems"(2) by simp
    have "\<forall>k. a \<le> k \<and> k < n \<longrightarrow>
             q_text (generateQuestion sel c all (replies k) (uuids k)) \<in> set hist"
    proof (intro allI impI)
      fix k assume k: "a \<le> k \<and> k < n"
      show "q_text (generateQuestion sel c all (replies k) (uuids k)) \<in> set hist"
      proof (cases "k = a")
        case True
        with here show ?thesis by simp
      next
        case False
        with k have "a + 1 \<le> k \<and> k < n" by simp
        with ih(4) show ?thesis by blast
      qed
    qed
    moreover from ih(1) have "a \<le> n" by simp
    moreover from ih(2) again have "a \<le> maxAttempts \<longrightarrow> n \<le> maxAttempts" by simp
    moreover note ih(3) ih(5)
    ultimately have ?case by blast
  }
  moreover
  {
    assume stop: "\<not> ?again"
    have "uniqueLoop sel c all hist replies uuids newQuestion a = (newQuestion, a)"
      using stop by (subst uniqueLoop.simps) auto
    with "1.prems"(1) have qn: "q = newQuestion" "n = a"
      by simp_all
    with stop "1.prems"(2) have ?case by auto
  }
  ultimately show ?case by blast
qed

subsection \<open>Levels along a session\<close>

lemma wf_world_frame:
  "wf_world w \<Longrightarrow> concepts w' = concepts w \<Longrightarrow>
   (selectedConcept w' = selectedConcept w \<or> selectedConcept w' = None) \<Longrightarrow> wf_world w'"
  by (auto simp: wf_world_def split: option.splits)

lemma levels_le_refl: "concepts w' = concepts w \<Longrightarrow>
   (selectedConcept w' = selectedConcept w \<or> selectedConcept w' = None) \<Longrightarrow> levels_le w w'"
  by (auto simp: levels_le_def list_all2_same split: option.splits)

lemma levels_le_trans:
  assumes "levels_le a b" and "levels_le b c"
  shows "levels_le a c"
proof -
  let ?P = "\<lambda>c c'. c_id c' = c_id c \<and> masteryLevel c \<le> masteryLevel c'"
  from assms have ab: "list_all2 ?P (concepts a) (concepts b)"
    and bc: "list_all2 ?P (concepts b) (concepts c)"
    by (simp_all add: levels_le_def)
  have "list_all2 ?P (concepts a) (concepts c)"
    by (rule list_all2_trans [OF _ ab bc]) auto
  moreover have "(case selectedConcept c of
         None \<Rightarrow> True
       | Some s' \<Rightarrow> (case selectedConcept a of
                      None \<Rightarrow> False
                    | Some s \<Rightarrow> c_id s' = c_id s \<and> masteryLevel s \<le> masteryLevel s'))"
    using assms unfolding levels_le_def
    by (auto split: option.splits)
  ultimately show ?thesis by (simp add: levels_le_def)
qed

lemma update_mono:
  assumes wf: "wf_world w"
    and sel: "selectedConcept w = Some s"
    and same: "c_id u = c_id s"
    and le: "masteryLevel s \<le> masteryLevel u"
    and valid: "valid_level (masteryLevel u)"
    and cs: "concepts w' = map (\<lambda>c. if c_id c = c_id s then u else c) (concepts w)"
    and sel': "selectedConcept w' = Some u"
  shows "wf_world w' \<and> levels_le w w'"
proof -
  from wf sel have sync: "\<forall>c \<in> set (concepts w). c_id c = c_id s \<longrightarrow> masteryLevel c = masteryLevel s"
    and ok: "\<forall>c \<in> set (concepts w). valid_level (masteryLevel c)"
    by (auto simp: wf_world_def list_all_iff)
  have "wf_world w'"
    using ok valid same cs sel' by (auto simp: wf_world_def list_all_iff)
  moreover have "list_all2 (\<lambda>c c'. c_id c' = c_id c \<and> masteryLevel c \<le> masteryLevel c')
          (concepts w) (concepts w')"
    unfolding cs list_all2_map2
    by (rule list.rel_refl_strong) (use sync same le in auto)
  then have "levels_le w w'"
    using sel sel' same le by (simp add: levels_le_def)
  ultimately show ?thesis ..
qed

lemma handleSubmit_update:
  assumes q: "currentQuestion (game w) = Some q"
    and nb: "trim (userAnswer (game w)) \<noteq> []"
    and sel: "selectedConcept w = Some s"
  shows "\<exists>u. c_id u = c_id s
           \<and> (valid_level (masteryLevel s) \<longrightarrow>
                masteryLevel s \<le> masteryLevel u \<and> valid_level (masteryLevel u))
           \<and> concepts (handleSubmit p r uuid now s w) =
                map (\<lambda>c. if c_id c = c_id s then u else c) (concepts w)
           \<and> selectedConcept (handleSubmit p r uuid now s w) = Some u"
proof -
  let ?res = "evaluateAnswer p q (userAnswer (game w)) s r"
  let ?L = "if masteryLevel s = LOCKED then 1 else masteryLevel s"
  consider (wrong) "\<not> isCorrect ?res"
    | (up) "isCorrect ?res" "?L < REASONING"
    | (top) "isCorrect ?res" "\<not> ?L < REASONING"
    by blast
  then show ?thesis
  proof cases
    case wrong
    then show ?thesis
      using q nb sel
      by (intro exI [of _ "s\<lparr>mistakes := mistakes s @
             [newMistake uuid now q (userAnswer (game w)) ?res]\<rparr>"])
         (simp add: handleSubmit_def Let_def)
  next
    case up
    then show ?thesis
      using q nb sel
      by (intro exI [of _ "s\<lparr>masteryLevel := min (?L + 1) REASONING\<rparr>"])
         (simp add: handleSubmit_def Let_def valid_level_def level_defs)
  next
    case top
    then show ?thesis
      using q nb sel
      by (intro exI [of _ "s\<lparr>masteryLevel := REASONING\<rparr>"])
         (simp add: handleSubmit_def Let_def valid_level_def level_defs)
  qed
qed

lemma handleSubmit_mono:
  assumes wf: "wf_world w" and sel: "selectedConcept w = Some s"
  shows "wf_world (handleSubmit p r uuid now s w) \<and> levels_le w (handleSubmit p r uuid now s w)"
proof (cases "currentQuestion (game w) = None \<or> trim (userAnswer (game w)) = []")
  case True
  then have "handleSubmit p r uuid now s w = w"
    by (auto simp: handleSubmit_def split: option.splits)
  with wf show ?thesis by (simp add: levels_le_refl)
next
  case False
  then obtain q where q: "currentQuestion (game w) = Some q"
    and nb: "trim (userAnswer (game w)) \<noteq> []"
    by auto
  from wf sel have v: "valid_level (masteryLevel s)"
    by (simp add: wf_world_def)
  from handleSubmit_update [OF q nb sel, of p r uuid now] v
  obtain u where u: "c_id u = c_id s" "masteryLevel s \<le> masteryLevel u"
    "valid_level (masteryLevel u)"
    "concepts (handleSubmit p r uuid now s w) =
       map (\<lambda>c. if c_id c = c_id s then u else c) (concepts w)"
    "selectedConcept (handleSubmit p r uuid now s w) = Some u"
    by blast
  from update_mono [OF wf sel u] show ?thesis .
qed

lemma handleNext_frame:
  "concepts (handleNext p replies uuids s w) = concepts w"
  "selectedConcept (handleNext p replies uuids s w) = selectedConcept w"
  by (simp_all add: handleNext_def Let_def split: prod.splits)

lemma step_mono:
  assumes wf: "wf_world w"
  shows "wf_world (step p a w) \<and> levels_le w (step p a w)"
proof (cases "selectedConcept w")
  case None
  then have "concepts (step p a w) = concepts w" "selectedConcept (step p a w) = selectedConcept w"
    by (simp_all add: step_def split: Action.splits)
  with wf show ?thesis by (simp add: wf_world_frame levels_le_refl)
next
  case (Some s)
  show ?thesis
  proof (cases a)
    case (Submit r uuid now)
    with Some handleSubmit_mono [OF wf Some] show ?thesis by (simp add: step_def)
  next
    case (TypeAnswer t)
    with Some have "concepts (step p a w) = concepts w" "selectedConcept (step p a w) = selectedConcept w"
      by (simp_all add: step_def)
    with wf show ?thesis by (simp add: wf_world_frame levels_le_refl)
  next
    case (Continue replies uuids)
    with Some have "concepts (step p a w) = concepts w" "selectedConcept (step p a w) = selectedConcept w"
      by (simp_all add: step_def handleNext_frame)
    with wf show ?thesis by (simp add: wf_world_frame levels_le_refl)
  next
    case TimerFires
    with Some have "concepts (step p a w) = concepts w"
      "selectedConcept (step p a w) = selectedConcept w \<or> selectedConcept (step p a w) = None"
      by (simp_all add: step_def onClose_def)
    with wf show ?thesis by (simp add: wf_world_frame levels_le_refl)
  qed
qed

lemma run_mono: "wf_world w \<Longrightarrow> wf_world (run p as w) \<and> levels_le w (run p as w)"
proof (induction as arbitrary: w)
  case Nil
  then show ?case by (simp add: levels_le_refl)
next
  case (Cons a as)
  from step_mono [OF Cons.prems] have s: "wf_world (step p a w)" "levels_le w (step p a w)"
    by simp_all
  from Cons.IH [OF s(1)] s(2) show ?case
    by (auto intro: levels_le_trans)
qed

lemma levels_le_nth:
  assumes "levels_le w w'"
  shows "length (concepts w') = length (concepts w)"
    and "\<forall>i < length (concepts w).
           c_id (concepts w' ! i) = c_id (concepts w ! i) \<and>
           masteryLevel (concepts w ! i) \<le> masteryLevel (concepts w' ! i)"
    and "\<forall>s'. selectedConcept w' = Some s' \<longrightarrow>
           (\<exists>s. selectedConcept w = Some s \<and> c_id s' = c_id s \<and> masteryLevel s \<le> masteryLevel s')"
  using assms by (auto simp: levels_le_def list_all2_conv_all_nth split: option.splits)

lemma handleSubmit_wrong_levels:
  assumes wf: "wf_world w" and sel: "selectedConcept w = Some s"
    and q: "currentQuestion (game w) = Some q"
    and nb: "trim (userAnswer (game w)) \<noteq> []"
    and wrong: "\<not> isCorrect (evaluateAnswer p q (userAnswer (game w)) s r)"
  shows "map masteryLevel (concepts (handleSubmit p r uuid now s w)) = map masteryLevel (concepts w)"
    and "map_option masteryLevel (selectedConcept (handleSubmit p r uuid now s w)) =
           Some (masteryLevel s)"
proof -
  from wf sel have sync: "\<forall>c \<in> set (concepts w). c_id c = c_id s \<longrightarrow> masteryLevel c = masteryLevel s"
    by (auto simp: wf_world_def list_all_iff)
  show "map masteryLevel (concepts (handleSubmit p r uuid now s w)) = map masteryLevel (concepts w)"
    using q nb wrong sync by (simp add: handleSubmit_def Let_def)
  show "map_option masteryLevel (selectedConcept (handleSubmit p r uuid now s w)) =
           Some (masteryLevel s)"
    using q nb wrong sel by (simp add: handleSubmit_def Let_def)
qed

section \<open>The claims\<close>

subsection \<open>The collection under \<open>updateConcept\<close>\<close>

text \<open>
  C10. \<open>updateConcept\<close> keeps the length of the concept collection; at every position,
  a concept whose id differs from the updated concept's id stays as it was, and a
  concept whose id matches is replaced by the updated value.
\<close>

theorem updateConcept_frame:
  "length (concepts (updateConcept updated w)) = length (concepts w) \<and>
   (\<forall>i < length (concepts w).
      concepts (updateConcept updated w) ! i =
        (if c_id (concepts w ! i) = c_id updated then updated else concepts w ! i))"
  by simp

theorem updateConcept_frame_witness:
  "(2::nat) < length (concepts (ex_world ex_trees)) \<and>
   c_id (concepts (ex_world ex_trees) ! 2) = c_id (ex_trees\<lparr>masteryLevel := APPLICATION\<rparr>) \<and>
   c_id (concepts (ex_world ex_trees) ! 0) \<noteq> c_id (ex_trees\<lparr>masteryLevel := APPLICATION\<rparr>) \<and>
   concepts (updateConcept (ex_trees\<lparr>masteryLevel := APPLICATION\<rparr>) (ex_world ex_trees)) =
     [ex_sets, ex_maps, ex_trees\<lparr>masteryLevel := APPLICATION\<rparr>]"
  using updateConcept_frame [of "ex_trees\<lparr>masteryLevel := APPLICATION\<rparr>" "ex_world ex_trees"]
  by (simp add: ex_defs)

subsection \<open>Provider failures\<close>

text \<open>
  C6. When the provider call of \<open>generateQuestion\<close> throws, yields no text, or yields
  text that does not parse, the caller gets the fallback question: id \<open>"error"\<close>, text
  \<open>"Explain the concept of "\<close> followed by the concept's title, type \<open>SHORT_ANSWER\<close>, the
  concept's description as correctness context. The first load of the component shows
  that question.
\<close>

theorem generateQuestion_fallback:
  assumes "r \<in> {CallFails, NoText, BadJson}"
  shows "generateQuestion sel concept allConcepts r uuid =
           \<lparr>q_id = ''error'', conceptId = c_id concept,
            q_text = ''Explain the concept of '' @ title concept,
            q_type = SHORT_ANSWER, options = None,
            correctAnswerContext = Some (description concept)\<rparr>
       \<and> currentQuestion (game (loadQ sel r uuid concept w)) =
           Some \<lparr>q_id = ''error'', conceptId = c_id concept,
                 q_text = ''Explain the concept of '' @ title concept,
                 q_type = SHORT_ANSWER, options = None,
                 correctAnswerContext = Some (description concept)\<rparr>"
  using assms
  by (auto simp: generateQuestion_def openai_generateQuestion_def gemini_generateQuestion_def
        fallbackQuestion_def loadQ_def)

theorem generateQuestion_fallback_witness:
  "CallFails \<in> {CallFails, NoText, BadJson :: QuestionData reply} \<and>
   generateQuestion Gemini ex_sets [ex_sets, ex_maps, ex_trees] CallFails ''id-7'' =
     \<lparr>q_id = ''error'', conceptId = ''sets'', q_text = ''Explain the concept of Sets'',
      q_type = SHORT_ANSWER, options = None,
      correctAnswerContext = Some ''Unordered collections''\<rparr>"
  using generateQuestion_fallback [of CallFails Gemini ex_sets "[ex_sets, ex_maps, ex_trees]"
      "''id-7''" "ex_world ex_sets"]
  by (simp add: ex_defs)

text \<open>
  C7. When the provider call of \<open>evaluateAnswer\<close> fails, a submit of a non-blank answer
  to the shown question still gets the result \<open>isCorrect = false\<close> with the fixed apology
  text, shows it as the assessment, and appends a mistake record (carrying that text as
  correction) to the concept's mistakes.
\<close>

theorem evaluation_failure_is_incorrect_turn:
  assumes "currentQuestion (game w) = Some q"
    and "trim (userAnswer (game w)) \<noteq> []"
    and "selectedConcept w = Some concept"
    and "r \<in> {CallFails, NoText, BadJson}"
  shows "evaluateAnswer sel q (userAnswer (game w)) concept r =
           \<lparr>isCorrect = False,
            explanation = ''An error occurred during evaluation. Please try again.'',
            conceptUpdate = None\<rparr>
       \<and> assessment (game (handleSubmit sel r uuid now concept w)) =
           Some \<lparr>isCorrect = False,
                 explanation = ''An error occurred during evaluation. Please try again.'',
                 conceptUpdate = None\<rparr>
       \<and> selectedConcept (handleSubmit sel r uuid now concept w) =
           Some (concept\<lparr>mistakes := mistakes concept @
                   [\<lparr>m_id = uuid, timestamp = now, question = q_text q,
                     m_userAnswer = userAnswer (game w),
                     correction = ''An error occurred during evaluation. Please try again.'',
                     misunderstandingType = ''Conceptual''\<rparr>]\<rparr>)
       \<and> concepts (handleSubmit sel r uuid now concept w) =
           map (\<lambda>c. if c_id c = c_id concept
                     then concept\<lparr>mistakes := mistakes concept @
                            [\<lparr>m_id = uuid, timestamp = now, question = q_text q,
                              m_userAnswer = userAnswer (game w),
                              correction = ''An error occurred during evaluation. Please try again.'',
                              misunderstandingType = ''Conceptual''\<rparr>]\<rparr>
                     else c) (concepts w)"
  using assms
  by (simp add: handleSubmit_def Let_def evaluateAnswer_failure evaluationFallback_def
        newMistake_def)

theorem evaluation_failure_is_incorrect_turn_witness:
  "currentQuestion (game (ex_world ex_sets)) = Some ex_question \<and>
   trim (userAnswer (game (ex_world ex_sets))) \<noteq> [] \<and>
   selectedConcept (ex_world ex_sets) = Some ex_sets \<and>
   NoText \<in> {CallFails, NoText, BadJson :: AssessmentResult reply} \<and>
   map_option mistakes (selectedConcept (handleSubmit OpenAI NoText ''m-1'' 10 ex_sets (ex_world ex_sets))) =
     Some [\<lparr>m_id = ''m-1'', timestamp = 10, question = ''What is a set?'',
            m_userAnswer = ''A collection'',
            correction = ''An error occurred during evaluation. Please try again.'',
            misunderstandingType = ''Conceptual''\<rparr>]"
  using evaluation_failure_is_incorrect_turn [of "ex_world ex_sets" ex_question ex_sets NoText
      OpenAI "''m-1''" 10]
  by (simp add: ex_defs trim_def is_whitespace_def)

text \<open>
  C8. For an empty concept list the summary generator returns exactly
  \<open>"No concepts to summarize."\<close> and makes no provider call, whatever the provider would
  have answered.
\<close>

theorem empty_summary:
  "generateUnifiedSummary sel [] r = (utext ''No concepts to summarize.'', [])"
  by (simp add: generateUnifiedSummary_def openai_generateUnifiedSummary_def
        gemini_generateUnifiedSummary_def)

theorem empty_summary_witness:
  "generateUnifiedSummary Gemini [] TextFails = (utext ''No concepts to summarize.'', []) \<and>
   generateUnifiedSummary OpenAI [] (TextContent [0x1F600]) =
     (utext ''No concepts to summarize.'', [])"
  using empty_summary [of Gemini TextFails] empty_summary [of OpenAI "TextContent [0x1F600]"]
  by simp

subsection \<open>Blank answers\<close>

text \<open>
  C9. A submit whose answer text is empty or consists of white space only returns the
  world it was given: no provider call is logged, the question history, the concept's
  mistakes and level, and all other state are unchanged.
\<close>

theorem blank_submit_is_noop:
  assumes "list_all is_whitespace (userAnswer (game w))"
  shows "handleSubmit sel r uuid now concept w = w"
proof -
  from assms have "trim (userAnswer (game w)) = []"
    by (simp add: trim_empty_iff)
  then show ?thesis
    by (simp add: handleSubmit_def split: option.splits)
qed

theorem blank_submit_is_noop_witness:
  "list_all is_whitespace (userAnswer (game ex_blank)) \<and>
   currentQuestion (game ex_blank) = Some ex_question \<and>
   handleSubmit OpenAI (Json ex_right) ''m-1'' 10 ex_sets ex_blank = ex_blank"
  using blank_submit_is_noop [of ex_blank OpenAI "Json ex_right" "''m-1''" 10 ex_sets]
  by (simp add: ex_defs is_whitespace_def)

subsection \<open>The transition rule of \<open>handleSubmit\<close>\<close>

text \<open>
  C2. A submit of a non-blank answer to the shown question, for the selected concept
  with effective level \<open>L\<close> (\<open>LOCKED\<close> counted as 1): a correct result with
  \<open>L < REASONING\<close> sets the level to \<open>min (L + 1) REASONING\<close> and schedules no close; a
  correct result with \<open>L = REASONING\<close> leaves the level at \<open>REASONING\<close> and schedules the
  close of the concept view, which deselects the concept; an incorrect result leaves the
  level as it was and sets \<open>needsRetry\<close>. The result is shown as the assessment.
\<close>

theorem submit_transition_rule:
  fixes w :: World and concept :: Concept and sel :: Provider
    and r :: "AssessmentResult reply" and uuid :: string and now :: nat
  assumes "currentQuestion (game w) = Some q"
    and "trim (userAnswer (game w)) \<noteq> []"
    and "selectedConcept w = Some concept"
  defines "L \<equiv> (if masteryLevel concept = LOCKED then 1 else masteryLevel concept)"
  defines "result \<equiv> evaluateAnswer sel q (userAnswer (game w)) concept r"
  defines "w' \<equiv> handleSubmit sel r uuid now concept w"
  shows "(isCorrect result \<and> L < REASONING \<longrightarrow>
            selectedConcept w' = Some (concept\<lparr>masteryLevel := min (L + 1) REASONING\<rparr>) \<and>
            concepts w' =
              map (\<lambda>c. if c_id c = c_id concept
                        then concept\<lparr>masteryLevel := min (L + 1) REASONING\<rparr> else c)
                (concepts w) \<and>
            closeTimer w' = closeTimer w \<and> \<not> needsRetry (game w'))
       \<and> (isCorrect result \<and> L = REASONING \<longrightarrow>
            selectedConcept w' = Some (concept\<lparr>masteryLevel := REASONING\<rparr>) \<and>
            concepts w' =
              map (\<lambda>c. if c_id c = c_id concept
                        then concept\<lparr>masteryLevel := REASONING\<rparr> else c)
                (concepts w) \<and>
            closeTimer w' \<and> selectedConcept (onClose w') = None \<and> \<not> needsRetry (game w'))
       \<and> (\<not> isCorrect result \<longrightarrow>
            map_option masteryLevel (selectedConcept w') = Some (masteryLevel concept) \<and>
            needsRetry (game w') \<and> closeTimer w' = closeTimer w)
       \<and> assessment (game w') = Some result"
  using assms(1-3) unfolding L_def result_def w'_def
  by (simp add: handleSubmit_def Let_def onClose_def)

theorem submit_transition_rule_witness:
  "currentQuestion (game (ex_world ex_maps)) = Some ex_question \<and>
   trim (userAnswer (game (ex_world ex_maps))) \<noteq> [] \<and>
   selectedConcept (ex_world ex_maps) = Some ex_maps \<and>
   isCorrect (evaluateAnswer Gemini ex_question (userAnswer (game (ex_world ex_maps))) ex_maps
                (Json ex_right)) \<and>
   (if masteryLevel ex_maps = LOCKED then 1 else masteryLevel ex_maps) = REASONING \<and>
   selectedConcept (handleSubmit Gemini (Json ex_right) ''m-1'' 10 ex_maps (ex_world ex_maps)) =
     Some ex_maps \<and>
   closeTimer (handleSubmit Gemini (Json ex_right) ''m-1'' 10 ex_maps (ex_world ex_maps))"
  using submit_transition_rule [of "ex_world ex_maps" ex_question ex_maps Gemini "Json ex_right"
      "''m-1''" 10]
  by (simp add: ex_defs level_defs trim_def is_whitespace_def)

text \<open>
  C3, as stated: for a concept at \<open>LOCKED\<close>, one correct answer gives
  \<open>RECOGNITION\<close> (1). It does not: the \<open>LOCKED\<close> concept \<open>ex_sets\<close> is at \<open>UNDERSTANDING\<close> (2)
  after one correct answer.
\<close>

theorem locked_correct_not_recognition:
  "masteryLevel ex_sets = LOCKED \<and>
   isCorrect (evaluateAnswer OpenAI ex_question (userAnswer (game (ex_world ex_sets))) ex_sets
                (Json ex_right)) \<and>
   map_option masteryLevel
     (selectedConcept (handleSubmit OpenAI (Json ex_right) ''m-1'' 10 ex_sets (ex_world ex_sets)))
     = Some UNDERSTANDING \<and>
   map masteryLevel
     (concepts (handleSubmit OpenAI (Json ex_right) ''m-1'' 10 ex_sets (ex_world ex_sets)))
     = [UNDERSTANDING, REASONING, UNDERSTANDING] \<and>
   UNDERSTANDING \<noteq> RECOGNITION"
  by (simp add: handleSubmit_def Let_def ex_defs level_defs trim_def is_whitespace_def)

text \<open>
  C3, amended: for a concept whose level is \<open>LOCKED\<close>, a submit of a non-blank answer
  that is judged correct results in level \<open>UNDERSTANDING\<close> (2): \<open>LOCKED\<close> counts as level
  1, and the correct answer advances it by one.
\<close>

theorem locked_correct_reaches_understanding:
  assumes "currentQuestion (game w) = Some q"
    and "trim (userAnswer (game w)) \<noteq> []"
    and "selectedConcept w = Some concept"
    and "masteryLevel concept = LOCKED"
    and "isCorrect (evaluateAnswer sel q (userAnswer (game w)) concept r)"
  shows "selectedConcept (handleSubmit sel r uuid now concept w) =
           Some (concept\<lparr>masteryLevel := UNDERSTANDING\<rparr>)
       \<and> concepts (handleSubmit sel r uuid now concept w) =
           map (\<lambda>c. if c_id c = c_id concept then concept\<lparr>masteryLevel := UNDERSTANDING\<rparr>
                     else c) (concepts w)"
  using assms by (simp add: handleSubmit_def Let_def level_defs)

theorem locked_correct_reaches_understanding_witness:
  "currentQuestion (game (ex_world ex_sets)) = Some ex_question \<and>
   trim (userAnswer (game (ex_world ex_sets))) \<noteq> [] \<and>
   selectedConcept (ex_world ex_sets) = Some ex_sets \<and>
   masteryLevel ex_sets = LOCKED \<and>
   isCorrect (evaluateAnswer Gemini ex_question (userAnswer (game (ex_world ex_sets))) ex_sets
                (Json ex_right)) \<and>
   concepts (handleSubmit Gemini (Json ex_right) ''m-1'' 10 ex_sets (ex_world ex_sets)) =
     [ex_sets\<lparr>masteryLevel := UNDERSTANDING\<rparr>, ex_maps, ex_trees]"
  using locked_correct_reaches_understanding [of "ex_world ex_sets" ex_question ex_sets Gemini
      "Json ex_right" "''m-1''" 10]
  by (simp add: ex_defs level_defs trim_def is_whitespace_def)

subsection \<open>The mistake ledger\<close>

text \<open>
  C4. A submit of a non-blank answer to the shown question whose result is incorrect
  puts exactly one new mistake record, of misunderstanding type \<open>"Conceptual"\<close>, after the
  concept's earlier mistakes, which stay as they were and in order; a submit whose result
  is correct leaves the concept's mistakes as they were.
\<close>

theorem submit_mistake_ledger:
  fixes w :: World and concept :: Concept and sel :: Provider
    and r :: "AssessmentResult reply" and uuid :: string and now :: nat
  assumes "currentQuestion (game w) = Some q"
    and "trim (userAnswer (game w)) \<noteq> []"
    and "selectedConcept w = Some concept"
  defines "result \<equiv> evaluateAnswer sel q (userAnswer (game w)) concept r"
  defines "w' \<equiv> handleSubmit sel r uuid now concept w"
  defines "m \<equiv> \<lparr>m_id = uuid, timestamp = now, question = q_text q,
                  m_userAnswer = userAnswer (game w), correction = explanation result,
                  misunderstandingType = ''Conceptual''\<rparr>"
  shows "(\<not> isCorrect result \<longrightarrow>
            selectedConcept w' = Some (concept\<lparr>mistakes := mistakes concept @ [m]\<rparr>) \<and>
            concepts w' =
              map (\<lambda>c. if c_id c = c_id concept
                        then concept\<lparr>mistakes := mistakes concept @ [m]\<rparr> else c)
                (concepts w))
       \<and> (isCorrect result \<longrightarrow>
            map_option mistakes (selectedConcept w') = Some (mistakes concept) \<and>
            (\<exists>l. concepts w' =
                   map (\<lambda>c. if c_id c = c_id concept then concept\<lparr>masteryLevel := l\<rparr> else c)
                     (concepts w)))"
  using assms(1-3) unfolding result_def w'_def m_def
  by (auto simp: handleSubmit_def Let_def newMistake_def)

theorem submit_mistake_ledger_witness:
  "currentQuestion (game (ex_world ex_trees)) = Some ex_question \<and>
   trim (userAnswer (game (ex_world ex_trees))) \<noteq> [] \<and>
   selectedConcept (ex_world ex_trees) = Some ex_trees \<and>
   \<not> isCorrect (evaluateAnswer OpenAI ex_question (userAnswer (game (ex_world ex_trees)))
                  ex_trees (Json ex_wrong)) \<and>
   map_option mistakes
     (selectedConcept (handleSubmit OpenAI (Json ex_wrong) ''m-1'' 10 ex_trees (ex_world ex_trees))) =
     Some [\<lparr>m_id = ''m-1'', timestamp = 10, question = ''What is a set?'',
            m_userAnswer = ''A collection'', correction = ''A set has no order.'',
            misunderstandingType = ''Conceptual''\<rparr>] \<and>
   map_option mistakes
     (selectedConcept (handleSubmit OpenAI (Json ex_right) ''m-1'' 10 ex_trees (ex_world ex_trees))) =
     Some []"
  using submit_mistake_ledger [of "ex_world ex_trees" ex_question ex_trees OpenAI "Json ex_wrong"
      "''m-1''" 10]
    submit_mistake_ledger [of "ex_world ex_trees" ex_question ex_trees OpenAI "Json ex_right"
      "''m-1''" 10]
  by (simp add: ex_defs level_defs trim_def is_whitespace_def)

subsection \<open>Bounded retry in \<open>handleNext\<close>\<close>

text \<open>
  C5. \<open>handleNext\<close> generates a question and, while its text is in the question history,
  generates again, at most 5 more times; the question it shows is the last one generated.
  With \<open>gen k\<close> the question of the \<open>k\<close>-th call (the first call being number 0): the
  shown question is \<open>gen n\<close> for some \<open>n \<le> 5\<close>, after \<open>n + 1\<close> provider calls, every
  earlier question duplicated the history, and if \<open>n < 5\<close> the shown one does not. So a
  shown question duplicates the history only if the first question and all 5
  regenerated ones did, and then 6 calls were made.
\<close>

theorem handleNext_bounded_retry:
  fixes w :: World and sel :: Provider and concept :: Concept
    and replies :: "nat \<Rightarrow> QuestionData reply" and uuids :: "nat \<Rightarrow> string"
  defines "hist \<equiv> questionHistory (game w)"
  defines "gen \<equiv> \<lambda>k. generateQuestion sel concept (concepts w) (replies k) (uuids k)"
  defines "w' \<equiv> handleNext sel replies uuids concept w"
  shows "(\<exists>n \<le> 5.
            currentQuestion (game w') = Some (gen n)
          \<and> providerLog w' = providerLog w @ replicate (n + 1) (questionRequest concept (concepts w))
          \<and> (\<forall>k < n. q_text (gen k) \<in> set hist)
          \<and> (n < 5 \<longrightarrow> q_text (gen n) \<notin> set hist))
       \<and> (\<forall>q. currentQuestion (game w') = Some q \<and> q_text q \<in> set hist \<longrightarrow>
            q = gen 5 \<and> (\<forall>k \<le> 5. q_text (gen k) \<in> set hist)
          \<and> providerLog w' = providerLog w @ replicate 6 (questionRequest concept (concepts w)))"
proof -
  obtain q n where loop: "uniqueLoop sel concept (concepts w) hist replies uuids (gen 0) 0 = (q, n)"
    by (cases "uniqueLoop sel concept (concepts w) hist replies uuids (gen 0) 0")
  note spec = uniqueLoop_spec [OF loop [unfolded gen_def] refl]
  from spec have n: "n \<le> 5"
    by (simp add: maxAttempts_def)
  from spec have q: "q = gen n"
    by (simp add: gen_def)
  from spec have dup: "\<forall>k < n. q_text (gen k) \<in> set hist"
    by (simp add: gen_def)
  from spec have "n < maxAttempts \<longrightarrow> q_text q \<notin> set hist"
    by blast
  with q have fresh: "n < 5 \<longrightarrow> q_text (gen n) \<notin> set hist"
    by (simp add: maxAttempts_def)
  have cur: "currentQuestion (game w') = Some (gen n)"
    and log: "providerLog w' = providerLog w @ replicate (n + 1) (questionRequest concept (concepts w))"
    using loop q by (simp_all add: w'_def handleNext_def Let_def gen_def hist_def)
  have first: "\<exists>n \<le> 5.
            currentQuestion (game w') = Some (gen n)
          \<and> providerLog w' = providerLog w @ replicate (n + 1) (questionRequest concept (concepts w))
          \<and> (\<forall>k < n. q_text (gen k) \<in> set hist)
          \<and> (n < 5 \<longrightarrow> q_text (gen n) \<notin> set hist)"
    using n cur log dup fresh by blast
  have second: "q = gen 5 \<and> (\<forall>k \<le> 5. q_text (gen k) \<in> set hist)
          \<and> providerLog w' = providerLog w @ replicate 6 (questionRequest concept (concepts w))"
    if "currentQuestion (game w') = Some q \<and> q_text q \<in> set hist" for q
  proof -
    from that cur have qq: "q = gen n" and "q_text (gen n) \<in> set hist" by simp_all
    with fresh n have n5: "n = 5" by auto
    have "\<forall>k \<le> 5. q_text (gen k) \<in> set hist"
    proof (intro allI impI)
      fix k :: nat assume "k \<le> 5"
      then have "k < n \<or> k = n" using n5 by auto
      with dup \<open>q_text (gen n) \<in> set hist\<close> show "q_text (gen k) \<in> set hist" by blast
    qed
    with qq n5 log show ?thesis by simp
  qed
  from first second show ?thesis by blast
qed

theorem handleNext_bounded_retry_witness:
  "q_text (generateQuestion OpenAI ex_sets (concepts (ex_world ex_sets)) (Json ex_repeat) ''id'')
     \<in> set (questionHistory (game (ex_world ex_sets))) \<and>
   currentQuestion (game (handleNext OpenAI (\<lambda>k. Json ex_repeat) (\<lambda>k. ''id'') ex_sets
                            (ex_world ex_sets)))
     = Some (ex_question\<lparr>q_id := ''id''\<rparr>) \<and>
   length (providerLog (handleNext OpenAI (\<lambda>k. Json ex_repeat) (\<lambda>k. ''id'') ex_sets
                          (ex_world ex_sets))) = 6 \<and>
   (2::nat) < 5 \<and>
   q_text (generateQuestion OpenAI ex_sets (concepts (ex_world ex_sets)) (Json ex_fresh) ''id'')
     \<notin> set (questionHistory (game (ex_world ex_sets))) \<and>
   map_option q_text
     (currentQuestion (game (handleNext OpenAI (\<lambda>k. if k < 2 then Json ex_repeat else Json ex_fresh)
                               (\<lambda>k. ''id'') ex_sets (ex_world ex_sets))))
     = Some ''Is the empty set a set?'' \<and>
   length (providerLog (handleNext OpenAI (\<lambda>k. if k < 2 then Json ex_repeat else Json ex_fresh)
                          (\<lambda>k. ''id'') ex_sets (ex_world ex_sets))) = 3"
  using handleNext_bounded_retry [where sel = OpenAI and concept = ex_sets
      and w = "ex_world ex_sets" and replies = "\<lambda>k. Json ex_repeat" and uuids = "\<lambda>k. ''id''"]
    handleNext_bounded_retry [where sel = OpenAI and concept = ex_sets
      and w = "ex_world ex_sets"
      and replies = "\<lambda>k. if k < 2 then Json ex_repeat else Json ex_fresh"
      and uuids = "\<lambda>k. ''id''"]
  by (simp add: handleNext_def uniqueLoop.simps maxAttempts_def ex_defs)

subsection \<open>Levels never decrease\<close>

text \<open>
  C1. Take a session state \<open>w\<close> (levels within the enum, the selected concept at the
  level of its entries in the collection), any sequence of actions from it (submits, with
  typing, continuing and the close timer in between), and one more submit. That submit
  lowers no level: the collection keeps its length and identifiers and no entry's level
  goes down, and the selected concept's level does not go down. If the submit is a
  non-blank answer judged incorrect, every level is exactly what it was. Over the whole
  sequence, no level is lower at the end than at the start.
\<close>

theorem masteryLevel_never_decreases:
  fixes w :: World and sel :: Provider and acts :: "Action list"
    and r :: "AssessmentResult reply" and uuid :: string and now :: nat
  assumes "wf_world w"
  defines "before \<equiv> run sel acts w"
  defines "after \<equiv> step sel (Submit r uuid now) before"
  shows "length (concepts after) = length (concepts before)
       \<and> (\<forall>i < length (concepts before).
             c_id (concepts after ! i) = c_id (concepts before ! i) \<and>
             masteryLevel (concepts before ! i) \<le> masteryLevel (concepts after ! i))
       \<and> (\<forall>s'. selectedConcept after = Some s' \<longrightarrow>
             (\<exists>s. selectedConcept before = Some s \<and> c_id s' = c_id s \<and>
                  masteryLevel s \<le> masteryLevel s'))
       \<and> (\<forall>s q. selectedConcept before = Some s \<and> currentQuestion (game before) = Some q \<and>
                 trim (userAnswer (game before)) \<noteq> [] \<and>
                 \<not> isCorrect (evaluateAnswer sel q (userAnswer (game before)) s r) \<longrightarrow>
             map masteryLevel (concepts after) = map masteryLevel (concepts before) \<and>
             map_option masteryLevel (selectedConcept after) = Some (masteryLevel s))
       \<and> levels_le w before \<and> levels_le w after \<and> wf_world after"
proof -
  from run_mono [OF assms(1), of sel acts]
  have wfb: "wf_world before" and wb: "levels_le w before"
    by (simp_all add: before_def)
  from step_mono [OF wfb, of sel "Submit r uuid now"]
  have wfa: "wf_world after" and ba: "levels_le before after"
    by (simp_all add: after_def)
  note nth = levels_le_nth [OF ba]
  have wrong: "map masteryLevel (concepts after) = map masteryLevel (concepts before) \<and>
               map_option masteryLevel (selectedConcept after) = Some (masteryLevel s)"
    if "selectedConcept before = Some s \<and> currentQuestion (game before) = Some q \<and>
        trim (userAnswer (game before)) \<noteq> [] \<and>
        \<not> isCorrect (evaluateAnswer sel q (userAnswer (game before)) s r)" for s q
  proof -
    from that have sel: "selectedConcept before = Some s"
      and q: "currentQuestion (game before) = Some q"
      and nb: "trim (userAnswer (game before)) \<noteq> []"
      and no: "\<not> isCorrect (evaluateAnswer sel q (userAnswer (game before)) s r)"
      by simp_all
    from sel have "after = handleSubmit sel r uuid now s before"
      by (simp add: after_def step_def)
    with handleSubmit_wrong_levels [OF wfb sel q nb no, of uuid now] show ?thesis
      by simp
  qed
  from nth wrong wb levels_le_trans [OF wb ba] wfa show ?thesis
    by blast
qed

theorem masteryLevel_never_decreases_witness:
  "wf_world (ex_world ex_sets) \<and>
   map masteryLevel (concepts (ex_world ex_sets)) = [LOCKED, REASONING, UNDERSTANDING] \<and>
   map masteryLevel (concepts (run OpenAI ex_session (ex_world ex_sets))) =
     [UNDERSTANDING, REASONING, UNDERSTANDING] \<and>
   map_option masteryLevel (selectedConcept (run OpenAI ex_session (ex_world ex_sets))) =
     Some UNDERSTANDING \<and>
   map_option q_text (currentQuestion (game (run OpenAI ex_session (ex_world ex_sets)))) =
     Some ''Is the empty set a set?'' \<and>
   userAnswer (game (run OpenAI ex_session (ex_world ex_sets))) = ''No'' \<and>
   trim ''No'' \<noteq> [] \<and> \<not> isCorrect ex_wrong \<and>
   map masteryLevel
     (concepts (step OpenAI (Submit (Json ex_wrong) ''m-2'' 20)
                  (run OpenAI ex_session (ex_world ex_sets)))) =
     [UNDERSTANDING, REASONING, UNDERSTANDING] \<and>
   levels_le (ex_world ex_sets)
     (step OpenAI (Submit (Json ex_wrong) ''m-2'' 20) (run OpenAI ex_session (ex_world ex_sets)))"
proof -
  have wf: "wf_world (ex_world ex_sets)"
    by (simp add: ex_defs level_defs wf_world_def valid_level_def)
  have sc: "selectedConcept (run OpenAI ex_session (ex_world ex_sets)) =
              Some (ex_sets\<lparr>masteryLevel := UNDERSTANDING\<rparr>)"
    by (simp add: ex_defs level_defs step_def handleSubmit_def handleNext_def uniqueLoop.simps
          maxAttempts_def Let_def trim_def is_whitespace_def split: prod.splits)
  have cs: "concepts (run OpenAI ex_session (ex_world ex_sets)) =
              [ex_sets\<lparr>masteryLevel := UNDERSTANDING\<rparr>, ex_maps, ex_trees]"
    by (simp add: ex_defs level_defs step_def handleSubmit_def handleNext_def uniqueLoop.simps
          maxAttempts_def Let_def trim_def is_whitespace_def split: prod.splits)
  have gm: "game (run OpenAI ex_session (ex_world ex_sets)) =
      \<lparr>currentQuestion =
         Some \<lparr>q_id = ''q-2'', conceptId = ''sets'', q_text = ''Is the empty set a set?'',
               q_type = SHORT_ANSWER, options = None, correctAnswerContext = Some ''Yes''\<rparr>,
       loading = False, userAnswer = ''No'', assessment = None, submitting = False,
       questionHistory = [''What is a set?'', ''What is a set?''], needsRetry = False\<rparr>"
    by (simp add: ex_defs level_defs step_def handleSubmit_def handleNext_def uniqueLoop.simps
          maxAttempts_def Let_def trim_def is_whitespace_def)
  have nb: "trim ''No'' \<noteq> []"
    by (simp add: trim_def is_whitespace_def)
  note fact = masteryLevel_never_decreases [OF wf, where sel = OpenAI and acts = ex_session
      and r = "Json ex_wrong" and uuid = "''m-2''" and now = 20]
  from fact have le: "levels_le (ex_world ex_sets)
     (step OpenAI (Submit (Json ex_wrong) ''m-2'' 20) (run OpenAI ex_session (ex_world ex_sets)))"
    by blast
  from fact have "\<forall>s q. selectedConcept (run OpenAI ex_session (ex_world ex_sets)) = Some s \<and>
           currentQuestion (game (run OpenAI ex_session (ex_world ex_sets))) = Some q \<and>
           trim (userAnswer (game (run OpenAI ex_session (ex_world ex_sets)))) \<noteq> [] \<and>
           \<not> isCorrect (evaluateAnswer OpenAI q
                          (userAnswer (game (run OpenAI ex_session (ex_world ex_sets)))) s
                          (Json ex_wrong)) \<longrightarrow>
           map masteryLevel (concepts (step OpenAI (Submit (Json ex_wrong) ''m-2'' 20)
                                         (run OpenAI ex_session (ex_world ex_sets)))) =
           map masteryLevel (concepts (run OpenAI ex_session (ex_world ex_sets))) \<and>
           map_option masteryLevel
             (selectedConcept (step OpenAI (Submit (Json ex_wrong) ''m-2'' 20)
                                 (run OpenAI ex_session (ex_world ex_sets)))) =
           Some (masteryLevel s)"
    by blast
  then have same: "map masteryLevel (concepts (step OpenAI (Submit (Json ex_wrong) ''m-2'' 20)
                                         (run OpenAI ex_session (ex_world ex_sets)))) =
           map masteryLevel (concepts (run OpenAI ex_session (ex_world ex_sets)))"
    using nb by (simp add: sc gm ex_wrong_def)
  have c0: "map masteryLevel (concepts (ex_world ex_sets)) = [LOCKED, REASONING, UNDERSTANDING]"
    by (simp add: ex_defs level_defs)
  have c1: "map masteryLevel (concepts (run OpenAI ex_session (ex_world ex_sets))) =
              [UNDERSTANDING, REASONING, UNDERSTANDING]"
    unfolding cs by (simp add: ex_sets_def ex_maps_def ex_trees_def level_defs)
  have c2: "map_option masteryLevel (selectedConcept (run OpenAI ex_session (ex_world ex_sets))) =
              Some UNDERSTANDING"
    by (simp add: sc)
  have c3: "map_option q_text (currentQuestion (game (run OpenAI ex_session (ex_world ex_sets)))) =
              Some ''Is the empty set a set?''"
    by (simp add: gm)
  have c4: "userAnswer (game (run OpenAI ex_session (ex_world ex_sets))) = ''No''"
    by (simp add: gm)
  have c5: "\<not> isCorrect ex_wrong"
    by (simp add: ex_wrong_def)
  from same c1 have c6: "map masteryLevel
     (concepts (step OpenAI (Submit (Json ex_wrong) ''m-2'' 20)
                  (run OpenAI ex_session (ex_world ex_sets)))) =
     [UNDERSTANDING, REASONING, UNDERSTANDING]"
    by (rule trans)
  from wf c0 c1 c2 c3 c4 nb c5 c6 le show ?thesis
    by blast
qed

end
